theory Spec2Isabelle
  imports Complex_Main "HOL-Library.Word" "HOL-Library.AList"
begin

section \<open>Data model (the shared types)\<close>

text \<open>
  Identifiers, names, URLs and session descriptions are JavaScript strings that the code
  only stores and compares, so they are \<^typ>\<open>string\<close>. Chat input, which the code
  trims, is a sequence of UTF-16 code units. JavaScript numbers (media positions in
  seconds, wall-clock readings of \<^verbatim>\<open>Date.now()\<close> in milliseconds) are
  idealised as reals.
\<close>

type_synonym jsstring = "16 word list"

datatype ParticipantRole = Host | Guest

record Participant =
  p_id :: string
  p_name :: string
  p_role :: ParticipantRole
  p_avatarColor :: string
  p_joinedAt :: string

record PlaybackState =
  isPlaying :: bool
  currentTime :: real
  playbackRate :: real
  lastUpdated :: real

record ChatMessage =
  m_id :: string
  m_roomId :: string
  m_senderId :: string
  m_senderName :: string
  m_content :: jsstring
  m_timestamp :: string

record HyperbeamSession =
  embedUrl :: string
  sessionId :: string

datatype MediaType = Video | Iframe | Youtube | Hyperbeam

record RoomInfo =
  r_id :: string
  r_name :: string
  r_hostName :: string
  r_participantCount :: nat
  r_mediaUrl :: string
  r_mediaType :: MediaType
  r_playbackState :: PlaybackState
  r_hyperbeam :: "HyperbeamSession option"

section \<open>Channel messages\<close>

text \<open>
  Client to server: the \<^verbatim>\<open>socket.emit\<close> calls of useRoom and VoiceCall. An offer or
  answer carries the local description of a peer connection, which the browser writes;
  the command names the connection it was taken from.
\<close>

datatype ClientCommand =
    RoomLeave
  | ChatSend jsstring
  | PlaybackPlayCmd real
  | PlaybackPauseCmd real
  | PlaybackSeekCmd real
  | MediaChangeCmd string MediaType
  | VoiceJoinCmd
  | VoiceLeaveCmd
  | VoiceMuteCmd bool
  | VoiceOfferCmd string nat
  | VoiceAnswerCmd string nat

text \<open>
  Server to client events handled by useRoom. An event whose handler reads
  \<^verbatim>\<open>Date.now()\<close> carries that reading as its last argument.
\<close>

datatype RoomEvent =
    RoomJoined Participant "Participant list"
  | RoomParticipantJoined Participant
  | RoomParticipantLeft string
  | RoomHostChanged string
  | PlaybackSync PlaybackState
  | PlaybackPlay real real
  | PlaybackPause real real
  | PlaybackSeek real real
  | MediaChanged string MediaType real
  | ChatHistory "ChatMessage list"
  | ChatMessageEv ChatMessage

section \<open>useRoom: state and event handlers\<close>

text \<open>
  The hook's React state, and \<^verbatim>\<open>socketRef\<close>: \<open>None\<close> is the null reference,
  \<open>Some out\<close> a socket on which the commands \<open>out\<close> have been emitted so far.
  The connection flags (\<^verbatim>\<open>isConnected\<close>, \<^verbatim>\<open>isJoined\<close>, \<^verbatim>\<open>error\<close>) are left
  out: no handler below reads or writes them.
\<close>

record RoomState =
  roomInfo :: "RoomInfo option"
  participants :: "Participant list"
  currentParticipant :: "Participant option"
  playbackState :: PlaybackState
  messages :: "ChatMessage list"
  socketRef :: "ClientCommand list option"

definition isHost :: "RoomState \<Rightarrow> bool" where
  "isHost st = (case currentParticipant st of None \<Rightarrow> False | Some p \<Rightarrow> p_role p = Host)"

definition roomJoined :: "Participant \<Rightarrow> Participant list \<Rightarrow> RoomState \<Rightarrow> RoomState" where
  "roomJoined participant roomParticipants st =
     st\<lparr>currentParticipant := Some participant, participants := roomParticipants\<rparr>"

definition participantJoined :: "Participant \<Rightarrow> RoomState \<Rightarrow> RoomState" where
  "participantJoined participant st =
     (if list_ex (\<lambda>p. p_id p = p_id participant) (participants st) then st
      else st\<lparr>participants := participants st @ [participant]\<rparr>)"

definition participantLeft :: "string \<Rightarrow> RoomState \<Rightarrow> RoomState" where
  "participantLeft participantId st =
     st\<lparr>participants := filter (\<lambda>p. p_id p \<noteq> participantId) (participants st)\<rparr>"

definition hostChangedList :: "string \<Rightarrow> Participant list \<Rightarrow> Participant list" where
  "hostChangedList newHostId prev =
     map (\<lambda>p. p\<lparr>p_role := (if p_id p = newHostId then Host else Guest)\<rparr>) prev"

definition hostChangedCurrent :: "string \<Rightarrow> Participant option \<Rightarrow> Participant option" where
  "hostChangedCurrent newHostId prev =
     (case prev of
        None \<Rightarrow> None
      | Some p \<Rightarrow>
          (let newRole = (if p_id p = newHostId then Host else Guest)
           in if p_role p \<noteq> newRole then Some (p\<lparr>p_role := newRole\<rparr>) else Some p))"

definition hostChanged :: "string \<Rightarrow> RoomState \<Rightarrow> RoomState" where
  "hostChanged newHostId st =
     st\<lparr>participants := hostChangedList newHostId (participants st),
        currentParticipant := hostChangedCurrent newHostId (currentParticipant st)\<rparr>"

definition playbackSync :: "PlaybackState \<Rightarrow> RoomState \<Rightarrow> RoomState" where
  "playbackSync state st = st\<lparr>playbackState := state\<rparr>"

definition playbackPlay :: "real \<Rightarrow> real \<Rightarrow> RoomState \<Rightarrow> RoomState" where
  "playbackPlay t now st =
     st\<lparr>playbackState := (playbackState st)\<lparr>isPlaying := True, currentTime := t, lastUpdated := now\<rparr>\<rparr>"

definition playbackPause :: "real \<Rightarrow> real \<Rightarrow> RoomState \<Rightarrow> RoomState" where
  "playbackPause t now st =
     st\<lparr>playbackState := (playbackState st)\<lparr>isPlaying := False, currentTime := t, lastUpdated := now\<rparr>\<rparr>"

definition playbackSeek :: "real \<Rightarrow> real \<Rightarrow> RoomState \<Rightarrow> RoomState" where
  "playbackSeek t now st =
     st\<lparr>playbackState := (playbackState st)\<lparr>currentTime := t, lastUpdated := now\<rparr>\<rparr>"

definition mediaChanged :: "string \<Rightarrow> MediaType \<Rightarrow> real \<Rightarrow> RoomState \<Rightarrow> RoomState" where
  "mediaChanged mediaUrl mediaType now st =
     st\<lparr>roomInfo := (case roomInfo st of
                       None \<Rightarrow> None
                     | Some prev \<Rightarrow> Some (prev\<lparr>r_mediaUrl := mediaUrl, r_mediaType := mediaType\<rparr>)),
        playbackState := \<lparr>isPlaying = False, currentTime = 0, playbackRate = 1, lastUpdated = now\<rparr>\<rparr>"

definition chatHistory :: "ChatMessage list \<Rightarrow> RoomState \<Rightarrow> RoomState" where
  "chatHistory history st = st\<lparr>messages := history\<rparr>"

definition chatMessage :: "ChatMessage \<Rightarrow> RoomState \<Rightarrow> RoomState" where
  "chatMessage message st = st\<lparr>messages := messages st @ [message]\<rparr>"

fun roomHandle :: "RoomState \<Rightarrow> RoomEvent \<Rightarrow> RoomState" where
  "roomHandle st (RoomJoined p ps) = roomJoined p ps st"
| "roomHandle st (RoomParticipantJoined p) = participantJoined p st"
| "roomHandle st (RoomParticipantLeft i) = participantLeft i st"
| "roomHandle st (RoomHostChanged i) = hostChanged i st"
| "roomHandle st (PlaybackSync s) = playbackSync s st"
| "roomHandle st (PlaybackPlay t now) = playbackPlay t now st"
| "roomHandle st (PlaybackPause t now) = playbackPause t now st"
| "roomHandle st (PlaybackSeek t now) = playbackSeek t now st"
| "roomHandle st (MediaChanged u ty now) = mediaChanged u ty now st"
| "roomHandle st (ChatHistory h) = chatHistory h st"
| "roomHandle st (ChatMessageEv m) = chatMessage m st"

definition roomRun :: "RoomState \<Rightarrow> RoomEvent list \<Rightarrow> RoomState" where
  "roomRun st evs = foldl roomHandle st evs"

definition hosts :: "RoomState \<Rightarrow> Participant list" where
  "hosts st = filter (\<lambda>p. p_role p = Host) (participants st)"


section \<open>useRoom: actions\<close>

text \<open>
  \<^verbatim>\<open>String.prototype.trim\<close> removes the code units of ECMAScript's WhiteSpace and
  LineTerminator productions from both ends; a string is truthy when it is not empty.
\<close>

definition isWhiteSpace :: "16 word \<Rightarrow> bool" where
  "isWhiteSpace c \<longleftrightarrow>
     c \<in> {0x9, 0xA, 0xB, 0xC, 0xD, 0x20, 0xA0, 0x1680, 0x2028, 0x2029, 0x202F, 0x205F,
          0x3000, 0xFEFF}
     \<or> (0x2000 \<le> c \<and> c \<le> 0x200A)"

definition trim :: "jsstring \<Rightarrow> jsstring" where
  "trim s = rev (dropWhile isWhiteSpace (rev (dropWhile isWhiteSpace s)))"

definition sendMessage :: "jsstring \<Rightarrow> RoomState \<Rightarrow> RoomState" where
  "sendMessage content st =
     (if trim content \<noteq> [] then
        (case socketRef st of
           None \<Rightarrow> st
         | Some out \<Rightarrow> st\<lparr>socketRef := Some (out @ [ChatSend content])\<rparr>)
      else st)"

definition play :: "real \<Rightarrow> RoomState \<Rightarrow> RoomState" where
  "play t st =
     (case socketRef st of
        None \<Rightarrow> st
      | Some out \<Rightarrow> st\<lparr>socketRef := Some (out @ [PlaybackPlayCmd t])\<rparr>)"

definition pause :: "real \<Rightarrow> RoomState \<Rightarrow> RoomState" where
  "pause t st =
     (case socketRef st of
        None \<Rightarrow> st
      | Some out \<Rightarrow> st\<lparr>socketRef := Some (out @ [PlaybackPauseCmd t])\<rparr>)"

definition seek :: "real \<Rightarrow> RoomState \<Rightarrow> RoomState" where
  "seek t st =
     (case socketRef st of
        None \<Rightarrow> st
      | Some out \<Rightarrow> st\<lparr>socketRef := Some (out @ [PlaybackSeekCmd t])\<rparr>)"

definition changeMedia :: "string \<Rightarrow> MediaType \<Rightarrow> RoomState \<Rightarrow> RoomState" where
  "changeMedia url ty st =
     (case socketRef st of
        None \<Rightarrow> st
      | Some out \<Rightarrow> st\<lparr>socketRef := Some (out @ [MediaChangeCmd url ty])\<rparr>)"

definition sent :: "RoomState \<Rightarrow> ClientCommand list" where
  "sent st = (case socketRef st of None \<Rightarrow> [] | Some out \<Rightarrow> out)"

section \<open>VideoPlayer\<close>

text \<open>
  The media element behind \<^verbatim>\<open>videoRef\<close> (\<open>None\<close> while it is not mounted) and the
  re-entrancy flag \<^verbatim>\<open>isSyncingRef\<close>.
\<close>

record VideoElement =
  el_currentTime :: real
  el_paused :: bool
  el_playbackRate :: real

record VideoPlayer =
  videoRef :: "VideoElement option"
  isSyncingRef :: bool

definition SYNC_THRESHOLD :: real where
  "SYNC_THRESHOLD = 2"

definition expectedTime :: "real \<Rightarrow> PlaybackState \<Rightarrow> real" where
  "expectedTime now pb =
     (let timeSinceUpdate = (now - lastUpdated pb) / 1000
      in if isPlaying pb then currentTime pb + timeSinceUpdate else currentTime pb)"

text \<open>The writes and calls the sync effect makes on the element, in program order.\<close>

datatype VideoOp = SetCurrentTime real | PlayCall | PauseCall | SetPlaybackRate real

definition syncOps :: "real \<Rightarrow> PlaybackState \<Rightarrow> VideoElement \<Rightarrow> VideoOp list" where
  "syncOps now pb video =
     (let expected = expectedTime now pb;
          drift = \<bar>el_currentTime video - expected\<bar>
      in (if drift > SYNC_THRESHOLD then [SetCurrentTime expected] else [])
         @ (if isPlaying pb \<and> el_paused video then [PlayCall]
            else if \<not> isPlaying pb \<and> \<not> el_paused video then [PauseCall]
            else [])
         @ (if el_playbackRate video \<noteq> playbackRate pb
            then [SetPlaybackRate (playbackRate pb)] else []))"

fun applyOp :: "VideoElement \<Rightarrow> VideoOp \<Rightarrow> VideoElement" where
  "applyOp v (SetCurrentTime t) = v\<lparr>el_currentTime := t\<rparr>"
| "applyOp v PlayCall = v\<lparr>el_paused := False\<rparr>"
| "applyOp v PauseCall = v\<lparr>el_paused := True\<rparr>"
| "applyOp v (SetPlaybackRate r) = v\<lparr>el_playbackRate := r\<rparr>"

definition syncEffect :: "real \<Rightarrow> string \<Rightarrow> PlaybackState \<Rightarrow> VideoPlayer \<Rightarrow> VideoPlayer" where
  "syncEffect now mediaUrl pb vp =
     (case videoRef vp of
        None \<Rightarrow> vp
      | Some video \<Rightarrow>
          if mediaUrl = [] then vp
          else vp\<lparr>isSyncingRef := True,
                  videoRef := Some (foldl applyOp video (syncOps now pb video))\<rparr>)"

definition syncTimeout :: "VideoPlayer \<Rightarrow> VideoPlayer" where
  "syncTimeout vp = vp\<lparr>isSyncingRef := False\<rparr>"

text \<open>
  The element's play, pause and seeked handlers. \<open>isHostProp\<close> and the callback are the
  component's props.
\<close>

definition handlePlay :: "bool \<Rightarrow> VideoPlayer \<Rightarrow> (real \<Rightarrow> 's \<Rightarrow> 's) \<Rightarrow> 's \<Rightarrow> 's" where
  "handlePlay isHostProp vp onPlay st =
     (case videoRef vp of
        None \<Rightarrow> st
      | Some video \<Rightarrow>
          if isHostProp \<and> \<not> isSyncingRef vp then onPlay (el_currentTime video) st else st)"

definition handlePause :: "bool \<Rightarrow> VideoPlayer \<Rightarrow> (real \<Rightarrow> 's \<Rightarrow> 's) \<Rightarrow> 's \<Rightarrow> 's" where
  "handlePause isHostProp vp onPause st =
     (case videoRef vp of
        None \<Rightarrow> st
      | Some video \<Rightarrow>
          if isHostProp \<and> \<not> isSyncingRef vp then onPause (el_currentTime video) st else st)"

definition handleSeek :: "bool \<Rightarrow> VideoPlayer \<Rightarrow> (real \<Rightarrow> 's \<Rightarrow> 's) \<Rightarrow> 's \<Rightarrow> 's" where
  "handleSeek isHostProp vp onSeek st =
     (case videoRef vp of
        None \<Rightarrow> st
      | Some video \<Rightarrow>
          if isHostProp \<and> \<not> isSyncingRef vp then onSeek (el_currentTime video) st else st)"

text \<open>
  The room page mounts the player with \<^verbatim>\<open>isHost={isHost} onPlay={play} onPause={pause}
  onSeek={seek}\<close>.
\<close>

datatype PlayerEvent = ElementPlay | ElementPause | ElementSeeked

fun roomPlayerEvent :: "VideoPlayer \<Rightarrow> PlayerEvent \<Rightarrow> RoomState \<Rightarrow> RoomState" where
  "roomPlayerEvent vp ElementPlay st = handlePlay (isHost st) vp play st"
| "roomPlayerEvent vp ElementPause st = handlePause (isHost st) vp pause st"
| "roomPlayerEvent vp ElementSeeked st = handleSeek (isHost st) vp seek st"

section \<open>VoiceCall\<close>

text \<open>
  Modelled from the spec: the declaration of \<^verbatim>\<open>VoiceParticipant\<close>, which VoiceCall
  imports from the shared types, is not among the source files. The spec gives a voice
  participant an id, a display name and a muted flag; the fields below are the ones
  VoiceCall reads (\<^verbatim>\<open>id\<close>, \<^verbatim>\<open>name\<close>, \<^verbatim>\<open>isMuted\<close>).
\<close>

record VoiceParticipant =
  v_id :: string
  v_name :: string
  v_isMuted :: bool

text \<open>
  An \<^verbatim>\<open>RTCPeerConnection\<close> object as far as VoiceCall drives it: the peer id its
  handlers were created for, whether it was asked to make the offer, whether
  \<^verbatim>\<open>close()\<close> was called on it, the description passed to
  \<^verbatim>\<open>setRemoteDescription\<close>, and the candidates passed to \<^verbatim>\<open>addIceCandidate\<close>.
\<close>

record PeerConnection =
  pc_peerId :: string
  pc_isInitiator :: bool
  pc_closed :: bool
  pc_remoteDescription :: "string option"
  pc_iceCandidates :: "string list"

datatype ConnectionState = New | Connecting | Connected | Disconnected | Failed | Closed

text \<open>
  The component's state. \<open>pcs\<close> holds every connection object constructed so far; a
  connection is named by its index there. \<^verbatim>\<open>peerConnectionsRef\<close> is the
  \<^verbatim>\<open>Map\<close> from peer id to connection, kept in insertion order as JavaScript keeps
  it. \<open>socket\<close> is the prop: \<open>None\<close> for null, otherwise the commands emitted so far.
  The audio elements of \<^verbatim>\<open>audioElementsRef\<close> are left out.
\<close>

record VoiceState =
  socket :: "ClientCommand list option"
  isInCall :: bool
  isMuted :: bool
  voiceParticipants :: "VoiceParticipant list"
  localStreamRef :: bool
  peerConnectionsRef :: "(string \<times> nat) list"
  pcs :: "PeerConnection list"

definition emit :: "ClientCommand \<Rightarrow> VoiceState \<Rightarrow> VoiceState" where
  "emit c st = (case socket st of None \<Rightarrow> st | Some out \<Rightarrow> st\<lparr>socket := Some (out @ [c])\<rparr>)"

definition updatePc :: "nat \<Rightarrow> (PeerConnection \<Rightarrow> PeerConnection) \<Rightarrow> VoiceState \<Rightarrow> VoiceState" where
  "updatePc h f st = (if h < length (pcs st) then st\<lparr>pcs := (pcs st)[h := f (pcs st ! h)]\<rparr> else st)"

definition cleanupPeerConnection :: "string \<Rightarrow> VoiceState \<Rightarrow> VoiceState" where
  "cleanupPeerConnection peerId st =
     (case map_of (peerConnectionsRef st) peerId of
        None \<Rightarrow> st
      | Some pc \<Rightarrow>
          (updatePc pc (\<lambda>c. c\<lparr>pc_closed := True\<rparr>) st)
            \<lparr>peerConnectionsRef := AList.delete peerId (peerConnectionsRef st)\<rparr>)"

text \<open>
  \<^verbatim>\<open>createPeerConnection\<close> returns the new connection, or null without a socket or a
  local stream. The offer of an initiator is sent when the promise chain of
  \<^verbatim>\<open>createOffer\<close> settles; the model sends it at once.
\<close>

definition createPeerConnection :: "string \<Rightarrow> bool \<Rightarrow> VoiceState \<Rightarrow> VoiceState \<times> nat option" where
  "createPeerConnection peerId isInitiator st =
     (if socket st = None \<or> \<not> localStreamRef st then (st, None)
      else
        let pc = length (pcs st);
            st1 = st\<lparr>pcs := pcs st @ [\<lparr>pc_peerId = peerId, pc_isInitiator = isInitiator,
                                         pc_closed = False, pc_remoteDescription = None,
                                         pc_iceCandidates = []\<rparr>],
                     peerConnectionsRef := AList.update peerId pc (peerConnectionsRef st)\<rparr>
        in (if isInitiator then emit (VoiceOfferCmd peerId pc) st1 else st1, Some pc))"

definition joinCall :: "bool \<Rightarrow> VoiceState \<Rightarrow> VoiceState" where
  "joinCall microphoneGranted st =
     (if socket st = None then st
      else if microphoneGranted
        then emit VoiceJoinCmd (st\<lparr>localStreamRef := True, isInCall := True\<rparr>)
        else st)"

definition leaveCall :: "VoiceState \<Rightarrow> VoiceState" where
  "leaveCall st =
     (if socket st = None then st
      else
        let st1 = st\<lparr>localStreamRef := False\<rparr>;
            st2 = foldl (\<lambda>s peerId. cleanupPeerConnection peerId s) st1
                    (map fst (peerConnectionsRef st1))
        in (emit VoiceLeaveCmd st2)\<lparr>isInCall := False, isMuted := False, voiceParticipants := []\<rparr>)"

definition toggleMute :: "VoiceState \<Rightarrow> VoiceState" where
  "toggleMute st =
     (if socket st = None \<or> \<not> localStreamRef st then st
      else let newMuted = \<not> isMuted st in emit (VoiceMuteCmd newMuted) (st\<lparr>isMuted := newMuted\<rparr>))"

text \<open>
  The socket event handlers; \<open>me\<close> is the prop \<^verbatim>\<open>currentUserId\<close>. A handler
  that awaits the browser (the offer, answer and candidate handlers) is run to its end
  in one step.
\<close>

definition onVoiceParticipants :: "string \<Rightarrow> VoiceParticipant list \<Rightarrow> VoiceState \<Rightarrow> VoiceState" where
  "onVoiceParticipants me roster st =
     foldl (\<lambda>s p. if v_id p \<noteq> me \<and> isInCall st then fst (createPeerConnection (v_id p) True s) else s)
       (st\<lparr>voiceParticipants := filter (\<lambda>p. v_id p \<noteq> me) roster\<rparr>)
       roster"

definition onVoiceParticipantJoined :: "string \<Rightarrow> VoiceParticipant \<Rightarrow> VoiceState \<Rightarrow> VoiceState" where
  "onVoiceParticipantJoined me participant st =
     (let st1 = st\<lparr>voiceParticipants :=
                     filter (\<lambda>p. v_id p \<noteq> v_id participant) (voiceParticipants st) @ [participant]\<rparr>
      in if isInCall st \<and> v_id participant \<noteq> me
         then fst (createPeerConnection (v_id participant) False st1)
         else st1)"

definition onVoiceParticipantLeft :: "string \<Rightarrow> VoiceState \<Rightarrow> VoiceState" where
  "onVoiceParticipantLeft participantId st =
     cleanupPeerConnection participantId
       (st\<lparr>voiceParticipants := filter (\<lambda>p. v_id p \<noteq> participantId) (voiceParticipants st)\<rparr>)"

definition onVoiceParticipantMuted :: "string \<Rightarrow> bool \<Rightarrow> VoiceState \<Rightarrow> VoiceState" where
  "onVoiceParticipantMuted participantId muted st =
     st\<lparr>voiceParticipants :=
          map (\<lambda>p. if v_id p = participantId then p\<lparr>v_isMuted := muted\<rparr> else p) (voiceParticipants st)\<rparr>"

definition onVoiceOffer :: "string \<Rightarrow> string \<Rightarrow> VoiceState \<Rightarrow> VoiceState" where
  "onVoiceOffer fromId sdp st =
     (let (st1, pc) = (case map_of (peerConnectionsRef st) fromId of
                         Some h \<Rightarrow> (st, Some h)
                       | None \<Rightarrow> createPeerConnection fromId False st)
      in case pc of
           None \<Rightarrow> st1
         | Some h \<Rightarrow>
             emit (VoiceAnswerCmd fromId h)
               (updatePc h (\<lambda>c. c\<lparr>pc_remoteDescription := Some sdp\<rparr>) st1))"

definition onVoiceAnswer :: "string \<Rightarrow> string \<Rightarrow> VoiceState \<Rightarrow> VoiceState" where
  "onVoiceAnswer fromId sdp st =
     (case map_of (peerConnectionsRef st) fromId of
        None \<Rightarrow> st
      | Some h \<Rightarrow> updatePc h (\<lambda>c. c\<lparr>pc_remoteDescription := Some sdp\<rparr>) st)"

definition onVoiceIceCandidate :: "string \<Rightarrow> string option \<Rightarrow> VoiceState \<Rightarrow> VoiceState" where
  "onVoiceIceCandidate fromId candidate st =
     (case map_of (peerConnectionsRef st) fromId of
        None \<Rightarrow> st
      | Some h \<Rightarrow>
          (case candidate of
             None \<Rightarrow> st
           | Some c \<Rightarrow> updatePc h (\<lambda>pc. pc\<lparr>pc_iceCandidates := pc_iceCandidates pc @ [c]\<rparr>) st))"

definition onConnectionStateChange :: "nat \<Rightarrow> ConnectionState \<Rightarrow> VoiceState \<Rightarrow> VoiceState" where
  "onConnectionStateChange h cs st =
     (if h < length (pcs st) \<and> (cs = Failed \<or> cs = Disconnected)
      then cleanupPeerConnection (pc_peerId (pcs st ! h)) st
      else st)"

datatype VoiceEvent =
    VoiceParticipants "VoiceParticipant list"
  | VoiceParticipantJoined VoiceParticipant
  | VoiceParticipantLeft string
  | VoiceParticipantMuted string bool
  | VoiceOffer string string
  | VoiceAnswer string string
  | VoiceIceCandidate string "string option"

text \<open>The handlers are registered only while the socket prop is not null.\<close>

fun voiceHandle :: "string \<Rightarrow> VoiceState \<Rightarrow> VoiceEvent \<Rightarrow> VoiceState" where
  "voiceHandle me st ev =
     (if socket st = None then st
      else case ev of
             VoiceParticipants roster \<Rightarrow> onVoiceParticipants me roster st
           | VoiceParticipantJoined p \<Rightarrow> onVoiceParticipantJoined me p st
           | VoiceParticipantLeft i \<Rightarrow> onVoiceParticipantLeft i st
           | VoiceParticipantMuted i m \<Rightarrow> onVoiceParticipantMuted i m st
           | VoiceOffer i sdp \<Rightarrow> onVoiceOffer i sdp st
           | VoiceAnswer i sdp \<Rightarrow> onVoiceAnswer i sdp st
           | VoiceIceCandidate i c \<Rightarrow> onVoiceIceCandidate i c st)"

definition voiceRun :: "string \<Rightarrow> VoiceState \<Rightarrow> VoiceEvent list \<Rightarrow> VoiceState" where
  "voiceRun me st evs = foldl (voiceHandle me) st evs"

text \<open>The connections to a peer that were constructed and never closed.\<close>

definition openLinks :: "string \<Rightarrow> VoiceState \<Rightarrow> PeerConnection list" where
  "openLinks peerId st = filter (\<lambda>c. pc_peerId c = peerId \<and> \<not> pc_closed c) (pcs st)"

section \<open>Event traces and observations\<close>

text \<open>The states a sequence of room events passes through, the first one included.\<close>

fun roomTrace :: "RoomState \<Rightarrow> RoomEvent list \<Rightarrow> RoomState list" where
  "roomTrace st [] = [st]"
| "roomTrace st (e # es) = st # roomTrace (roomHandle st e) es"

definition lastUpdatedOf :: "RoomState \<Rightarrow> real" where
  "lastUpdatedOf st = lastUpdated (playbackState st)"

text \<open>The reading of \<^verbatim>\<open>Date.now()\<close> that the handler of an event takes, if it takes one.\<close>

fun stamp :: "RoomEvent \<Rightarrow> real option" where
  "stamp (PlaybackPlay t now) = Some now"
| "stamp (PlaybackPause t now) = Some now"
| "stamp (PlaybackSeek t now) = Some now"
| "stamp (MediaChanged u ty now) = Some now"
| "stamp _ = None"

fun isSync :: "RoomEvent \<Rightarrow> bool" where
  "isSync (PlaybackSync s) = True"
| "isSync _ = False"

definition rosterIds :: "VoiceState \<Rightarrow> string list" where
  "rosterIds st = map v_id (voiceParticipants st)"

text \<open>
  A roster whose ids are pairwise distinct, and a joined event about somebody else than
  the local participant.
\<close>

fun cleanVoiceEvent :: "string \<Rightarrow> VoiceEvent \<Rightarrow> bool" where
  "cleanVoiceEvent me (VoiceParticipants roster) = distinct (map v_id roster)"
| "cleanVoiceEvent me (VoiceParticipantJoined p) = (v_id p \<noteq> me)"
| "cleanVoiceEvent me _ = True"

section \<open>Sample states\<close>

definition alice :: Participant where
  "alice = \<lparr>p_id = ''a'', p_name = ''Alice'', p_role = Host, p_avatarColor = ''red'',
            p_joinedAt = ''2024-01-01T10:00:00Z''\<rparr>"

definition bob :: Participant where
  "bob = \<lparr>p_id = ''b'', p_name = ''Bob'', p_role = Guest, p_avatarColor = ''blue'',
          p_joinedAt = ''2024-01-01T10:01:00Z''\<rparr>"

text \<open>Bob's client: a guest, with a socket on which nothing has been sent yet.\<close>

definition room0 :: RoomState where
  "room0 = \<lparr>roomInfo = None, participants = [alice, bob], currentParticipant = Some bob,
            playbackState = \<lparr>isPlaying = False, currentTime = 0, playbackRate = 1, lastUpdated = 0\<rparr>,
            messages = [], socketRef = Some []\<rparr>"

definition movieRoom :: RoomInfo where
  "movieRoom = \<lparr>r_id = ''r'', r_name = ''Movie night'', r_hostName = ''Alice'',
     r_participantCount = 2, r_mediaUrl = ''old.mp4'', r_mediaType = Video,
     r_playbackState = \<lparr>isPlaying = False, currentTime = 0, playbackRate = 1, lastUpdated = 0\<rparr>,
     r_hyperbeam = None\<rparr>"

definition room1 :: RoomState where
  "room1 = room0\<lparr>roomInfo := Some movieRoom,
     playbackState := \<lparr>isPlaying = True, currentTime = 754, playbackRate = 1.5, lastUpdated = 5000\<rparr>\<rparr>"

definition msg1 :: ChatMessage where
  "msg1 = \<lparr>m_id = ''m1'', m_roomId = ''r'', m_senderId = ''a'', m_senderName = ''Alice'',
           m_content = [0x68, 0x69], m_timestamp = ''2024-01-01T10:02:00Z''\<rparr>"

definition playingAt10 :: PlaybackState where
  "playingAt10 = \<lparr>isPlaying = True, currentTime = 10, playbackRate = 1, lastUpdated = 1000\<rparr>"

definition videoAt :: "real \<Rightarrow> VideoPlayer" where
  "videoAt t = \<lparr>videoRef = Some \<lparr>el_currentTime = t, el_paused = False, el_playbackRate = 1\<rparr>,
                isSyncingRef = False\<rparr>"

definition voiceIdle :: VoiceState where
  "voiceIdle = \<lparr>socket = Some [], isInCall = False, isMuted = False, voiceParticipants = [],
                localStreamRef = False, peerConnectionsRef = [], pcs = []\<rparr>"

text \<open>Alice's client after she joined the call, and after Bob joined it too.\<close>

definition voiceInCall :: VoiceState where
  "voiceInCall = joinCall True voiceIdle"

definition vAlice :: VoiceParticipant where
  "vAlice = \<lparr>v_id = ''a'', v_name = ''Alice'', v_isMuted = False\<rparr>"

definition vBob :: VoiceParticipant where
  "vBob = \<lparr>v_id = ''b'', v_name = ''Bob'', v_isMuted = False\<rparr>"

definition voiceLinked :: VoiceState where
  "voiceLinked = onVoiceParticipantJoined ''a'' vBob voiceInCall"

section \<open>Room state reconciler: host changes\<close>

lemma hostChangedList_absorb:
  "hostChangedList i (hostChangedList j ps) = hostChangedList i ps"
  by (simp add: hostChangedList_def)

lemma participants_hostChanged_run:
  "participants (roomRun st (map RoomHostChanged evs)) =
     (if evs = [] then participants st else hostChangedList (last evs) (participants st))"
proof (induction evs rule: rev_induct)
  case Nil
  show ?case by (simp add: roomRun_def)
next
  case (snoc i evs)
  then show ?case
    by (simp add: roomRun_def hostChanged_def hostChangedList_absorb)
qed

lemma hosts_hostChangedList:
  "filter (\<lambda>p. p_role p = Host) (hostChangedList i ps) =
     map (\<lambda>p. p\<lparr>p_role := Host\<rparr>) (filter (\<lambda>p. p_id p = i) ps)"
  by (induction ps) (simp_all add: hostChangedList_def)

lemma length_filter_key:
  "distinct (map f xs) \<Longrightarrow> k \<in> f ` set xs \<Longrightarrow> length (filter (\<lambda>x. f x = k) xs) = 1"
proof (induction xs)
  case Nil
  then show ?case by simp
next
  case (Cons x xs)
  show ?case
  proof (cases "f x = k")
    case True
    with Cons.prems have "\<forall>y\<in>set xs. f y \<noteq> k"
      by (metis distinct.simps(2) image_eqI list.simps(9) set_map)
    then have "filter (\<lambda>x. f x = k) xs = []" by (simp add: filter_empty_conv)
    with True show ?thesis by simp
  next
    case False
    with Cons show ?thesis by auto
  qed
qed

text \<open>
  C1. The handler of \<^verbatim>\<open>room:host-changed\<close> rewrites the participant list in one
  \<open>map\<close>, a single state update: the row of the named participant becomes host and
  every other row guest. After any non-empty sequence of host-changed events whose
  last one names a participant of the list, exactly one participant is host, the one
  named last: the ids of the host rows are that one id, and a row is host if and only
  if it carries it. On a list keyed by participant id (pairwise distinct ids, which
  the participant-joined handler keeps by inserting only absent ids) that is exactly
  one row, never zero and never two. The ids of the list are not touched.
\<close>

theorem host_changed_exactly_one_host:
  assumes "evs \<noteq> []"
    and "last evs \<in> p_id ` set (participants st)"
  shows "p_id ` set (hosts (roomRun st (map RoomHostChanged evs))) = {last evs}
       \<and> (\<forall>p\<in>set (participants (roomRun st (map RoomHostChanged evs))).
             p_role p = Host \<longleftrightarrow> p_id p = last evs)
       \<and> (distinct (map p_id (participants st)) \<longrightarrow>
             length (hosts (roomRun st (map RoomHostChanged evs))) = 1)
       \<and> map p_id (participants (roomRun st (map RoomHostChanged evs))) = map p_id (participants st)"
proof -
  let ?st' = "roomRun st (map RoomHostChanged evs)"
  have ps: "participants ?st' = hostChangedList (last evs) (participants st)"
    using assms(1) by (simp add: participants_hostChanged_run)
  have ids: "map p_id (participants ?st') = map p_id (participants st)"
    by (simp add: ps hostChangedList_def)
  have rows: "\<forall>p\<in>set (participants ?st'). p_role p = Host \<longleftrightarrow> p_id p = last evs"
    by (auto simp: ps hostChangedList_def)
  have h: "hosts ?st' =
      map (\<lambda>p. p\<lparr>p_role := Host\<rparr>) (filter (\<lambda>p. p_id p = last evs) (participants st))"
    by (simp add: hosts_def ps hosts_hostChangedList)
  have "map p_id (hosts ?st') = filter (\<lambda>i. i = last evs) (map p_id (participants st))"
    by (simp add: h filter_map comp_def)
  then have "set (map p_id (hosts ?st')) = {last evs}"
    using assms(2) by auto
  then have one: "p_id ` set (hosts ?st') = {last evs}"
    by simp
  have "distinct (map p_id (participants st)) \<longrightarrow> length (hosts ?st') = 1"
    using assms(2) by (simp add: h length_filter_key)
  with one rows ids show ?thesis by blast
qed

theorem host_changed_exactly_one_host_witness:
  "[''b'', ''a'', ''b''] \<noteq> []
   \<and> last [''b'', ''a'', ''b''] \<in> p_id ` set (participants room0)
   \<and> distinct (map p_id (participants room0))
   \<and> p_id ` set (hosts (roomRun room0 (map RoomHostChanged [''b'', ''a'', ''b'']))) = {''b''}
   \<and> length (hosts (roomRun room0 (map RoomHostChanged [''b'', ''a'', ''b'']))) = 1
   \<and> map p_role (participants (roomRun room0 (map RoomHostChanged [''b'', ''a'', ''b'']))) = [Guest, Host]"
proof -
  have h1: "[''b'', ''a'', ''b''] \<noteq> []" by simp
  have h2: "last [''b'', ''a'', ''b''] \<in> p_id ` set (participants room0)"
    by (simp add: room0_def alice_def bob_def)
  have h3: "distinct (map p_id (participants room0))"
    by (simp add: room0_def alice_def bob_def)
  have "map p_role (participants (roomRun room0 (map RoomHostChanged [''b'', ''a'', ''b'']))) = [Guest, Host]"
    by (simp add: roomRun_def hostChanged_def hostChangedList_def room0_def alice_def bob_def)
  with h1 h2 h3 host_changed_exactly_one_host [OF h1 h2] show ?thesis by simp
qed

section \<open>Playback synchronisation: the sync effect\<close>

lemma currentTime_syncOps:
  "el_currentTime (foldl applyOp video (syncOps now pb video)) =
     (if \<bar>el_currentTime video - expectedTime now pb\<bar> > 2 then expectedTime now pb
      else el_currentTime video)"
  by (simp add: syncOps_def SYNC_THRESHOLD_def Let_def)

lemma seek_in_syncOps:
  "SetCurrentTime x \<in> set (syncOps now pb video) \<longleftrightarrow>
     \<bar>el_currentTime video - expectedTime now pb\<bar> > 2 \<and> x = expectedTime now pb"
  by (auto simp: syncOps_def SYNC_THRESHOLD_def Let_def)

text \<open>
  C2. With a mounted media element and a media URL, the sync effect run at wall-clock
  \<open>now\<close> on a snapshot with position \<open>P\<close> (seconds) and timestamp \<open>T\<close> expects the
  position \<open>P\<close> plus the time elapsed since \<open>T\<close> when the snapshot is playing, and \<open>P\<close>
  when it is paused. Wall-clock readings are in milliseconds, so the elapsed seconds
  are \<open>(now - T) / 1000\<close>: \<open>d\<close> seconds after \<open>T\<close> the expected position is \<open>P + d\<close>.
  The effect writes the element's position if and only if the local position differs
  from the expected one by more than 2 seconds, and then writes the expected position;
  otherwise the local position stays as it is.
\<close>

theorem guest_sync_drift_correction:
  assumes "videoRef vp = Some video" and "mediaUrl \<noteq> []"
  shows "expectedTime now pb =
           (if isPlaying pb then currentTime pb + (now - lastUpdated pb) / 1000 else currentTime pb)
       \<and> expectedTime (lastUpdated pb + 1000 * d) pb =
           (if isPlaying pb then currentTime pb + d else currentTime pb)
       \<and> (SetCurrentTime x \<in> set (syncOps now pb video) \<longleftrightarrow>
            \<bar>el_currentTime video - expectedTime now pb\<bar> > 2 \<and> x = expectedTime now pb)
       \<and> map_option el_currentTime (videoRef (syncEffect now mediaUrl pb vp)) =
           Some (if \<bar>el_currentTime video - expectedTime now pb\<bar> > 2 then expectedTime now pb
                 else el_currentTime video)"
proof -
  have a: "expectedTime now pb =
           (if isPlaying pb then currentTime pb + (now - lastUpdated pb) / 1000 else currentTime pb)"
    by (simp add: expectedTime_def)
  have b: "expectedTime (lastUpdated pb + 1000 * d) pb =
           (if isPlaying pb then currentTime pb + d else currentTime pb)"
    by (simp add: expectedTime_def)
  have c: "map_option el_currentTime (videoRef (syncEffect now mediaUrl pb vp)) =
           Some (el_currentTime (foldl applyOp video (syncOps now pb video)))"
    using assms by (simp add: syncEffect_def)
  show ?thesis
    unfolding c currentTime_syncOps using a b seek_in_syncOps by blast
qed

theorem guest_sync_drift_correction_witness:
  "videoRef (videoAt 16) = Some \<lparr>el_currentTime = 16, el_paused = False, el_playbackRate = 1\<rparr>
   \<and> videoRef (videoAt 14.5) = Some \<lparr>el_currentTime = 14.5, el_paused = False, el_playbackRate = 1\<rparr>
   \<and> ''movie.mp4'' \<noteq> []
   \<and> expectedTime 4000 playingAt10 = 13
   \<and> map_option el_currentTime (videoRef (syncEffect 4000 ''movie.mp4'' playingAt10 (videoAt 16))) = Some 13
   \<and> map_option el_currentTime (videoRef (syncEffect 4000 ''movie.mp4'' playingAt10 (videoAt 14.5))) = Some 14.5"
proof -
  have h1: "videoRef (videoAt 16) = Some \<lparr>el_currentTime = 16, el_paused = False, el_playbackRate = 1\<rparr>"
    by (simp add: videoAt_def)
  have h1': "videoRef (videoAt 14.5) = Some \<lparr>el_currentTime = 14.5, el_paused = False, el_playbackRate = 1\<rparr>"
    by (simp add: videoAt_def)
  have h2: "''movie.mp4'' \<noteq> []" by simp
  have e: "expectedTime 4000 playingAt10 = 13"
    by (simp add: expectedTime_def playingAt10_def)
  show ?thesis
    using h1 h1' h2
      guest_sync_drift_correction [OF h1 h2, of 4000 playingAt10 3 13]
      guest_sync_drift_correction [OF h1' h2, of 4000 playingAt10 3 13]
    by (simp add: e)
qed

section \<open>Chat delivery\<close>

lemma roomRun_append: "roomRun st (xs @ ys) = roomRun (roomRun st xs) ys"
  by (simp add: roomRun_def)

lemma roomRun_Cons: "roomRun st (e # es) = roomRun (roomHandle st e) es"
  by (simp add: roomRun_def)

lemma messages_live_run:
  "messages (roomRun st (map ChatMessageEv ms)) = messages st @ ms"
  by (induction ms arbitrary: st) (simp_all add: roomRun_def chatMessage_def)

text \<open>
  C3, as stated, fails: the handler of \<^verbatim>\<open>chat:message\<close> does not look for the id.
  A history snapshot holding one message followed by a live delivery of the same
  message leaves the log with that message twice.
\<close>

theorem chat_duplicate_delivery_counterexample:
  "messages (roomRun room0 [ChatHistory [msg1], ChatMessageEv msg1]) = [msg1, msg1]
   \<and> \<not> distinct (map m_id (messages (roomRun room0 [ChatHistory [msg1], ChatMessageEv msg1])))"
  by (simp add: roomRun_def chatHistory_def chatMessage_def)

text \<open>
  C3, amended. Every live chat message is appended at the end of the log, whether or
  not its id is already there, and a history snapshot replaces the log. So a run of
  live messages only extends the log, and after a history snapshot \<open>h\<close> followed by the
  live messages \<open>ms\<close> the log is \<open>h @ ms\<close>, whatever happened before the snapshot: the
  log has no duplicate ids exactly when the snapshot and the deliveries after it have
  none.
\<close>

theorem chat_log_appends_every_live_message:
  "messages (roomHandle st (ChatMessageEv m)) = messages st @ [m]
   \<and> messages (roomRun st (map ChatMessageEv ms)) = messages st @ ms
   \<and> messages (roomRun st (evs @ ChatHistory h # map ChatMessageEv ms)) = h @ ms"
proof -
  have "messages (roomRun st (evs @ ChatHistory h # map ChatMessageEv ms)) = h @ ms"
    by (simp add: roomRun_append roomRun_Cons messages_live_run chatHistory_def)
  then show ?thesis
    by (simp add: messages_live_run chatMessage_def)
qed

section \<open>Playback commands and the host guard\<close>

text \<open>
  C4, as stated, fails: \<^verbatim>\<open>play\<close>, \<^verbatim>\<open>pause\<close> and \<^verbatim>\<open>seek\<close> of useRoom test
  only the socket. Called on a guest's client with a socket they emit the command.
\<close>

theorem guest_play_emits_counterexample:
  "\<not> isHost room0
   \<and> sent (play 12 room0) = [PlaybackPlayCmd 12]
   \<and> sent (pause 12 room0) = [PlaybackPauseCmd 12]
   \<and> sent (seek 12 room0) = [PlaybackSeekCmd 12]"
  by (simp add: isHost_def room0_def bob_def play_def pause_def seek_def sent_def)

text \<open>
  C4, amended. The non-host guard is in the player's event handlers: when the local
  role is not host, \<^verbatim>\<open>handlePlay\<close>, \<^verbatim>\<open>handlePause\<close> and \<^verbatim>\<open>handleSeek\<close>, wired
  by the room page to \<^verbatim>\<open>play\<close>, \<^verbatim>\<open>pause\<close> and \<^verbatim>\<open>seek\<close>, call nothing and the
  state, with the commands sent so far, is unchanged. The command constructors
  themselves emit on every call for which a socket is present, whatever the role.
\<close>

theorem non_host_guard_in_player_handlers:
  assumes "\<not> isHost st"
  shows "roomPlayerEvent vp ev st = st
       \<and> sent (play t st) = (if socketRef st = None then [] else sent st @ [PlaybackPlayCmd t])
       \<and> sent (pause t st) = (if socketRef st = None then [] else sent st @ [PlaybackPauseCmd t])
       \<and> sent (seek t st) = (if socketRef st = None then [] else sent st @ [PlaybackSeekCmd t])"
proof -
  have "roomPlayerEvent vp ev st = st"
    using assms
    by (cases ev) (simp_all add: handlePlay_def handlePause_def handleSeek_def split: option.splits)
  then show ?thesis
    by (simp add: play_def pause_def seek_def sent_def split: option.splits)
qed

theorem non_host_guard_in_player_handlers_witness:
  "\<not> isHost room0
   \<and> roomPlayerEvent (videoAt 12) ElementPlay room0 = room0
   \<and> sent (play 12 room0) = [PlaybackPlayCmd 12]"
proof -
  have h: "\<not> isHost room0" by (simp add: isHost_def room0_def bob_def)
  have s: "socketRef room0 = Some []" "sent room0 = []" by (simp_all add: room0_def sent_def)
  show ?thesis
    using h non_host_guard_in_player_handlers [OF h, of "videoAt 12" ElementPlay 12]
    by (simp add: s)
qed

section \<open>Media changes\<close>

text \<open>
  C7. Whatever the state before, the handler of \<^verbatim>\<open>media:changed\<close> leaves the playback
  state paused at position 0 with rate 1 (stamped with the local clock), and in the
  same handler run, one step of the reducer, the loaded room info takes the new URL
  and type. The position the player then expects is 0 at any later time, so no
  position of the old media is applied to the new one.
\<close>

theorem media_changed_resets_playback:
  "playbackState (roomHandle st (MediaChanged url ty now)) =
     \<lparr>isPlaying = False, currentTime = 0, playbackRate = 1, lastUpdated = now\<rparr>
   \<and> (\<forall>r. roomInfo st = Some r \<longrightarrow>
         roomInfo (roomHandle st (MediaChanged url ty now)) =
           Some (r\<lparr>r_mediaUrl := url, r_mediaType := ty\<rparr>))
   \<and> expectedTime t (playbackState (roomHandle st (MediaChanged url ty now))) = 0"
  by (simp add: mediaChanged_def expectedTime_def)

theorem media_changed_resets_playback_witness:
  "roomInfo room1 = Some movieRoom
   \<and> currentTime (playbackState room1) = 754
   \<and> playbackState (roomHandle room1 (MediaChanged ''new.mp4'' Youtube 9000)) =
       \<lparr>isPlaying = False, currentTime = 0, playbackRate = 1, lastUpdated = 9000\<rparr>
   \<and> map_option r_mediaUrl (roomInfo (roomHandle room1 (MediaChanged ''new.mp4'' Youtube 9000)))
       = Some ''new.mp4''
   \<and> map_option r_mediaType (roomInfo (roomHandle room1 (MediaChanged ''new.mp4'' Youtube 9000)))
       = Some Youtube"
proof -
  have h: "roomInfo room1 = Some movieRoom" by (simp add: room1_def)
  have c: "currentTime (playbackState room1) = 754" by (simp add: room1_def)
  show ?thesis
    using h c media_changed_resets_playback [of room1 "''new.mp4''" Youtube 9000 0]
    by simp
qed

section \<open>The timestamp of the playback state\<close>

lemma lastUpdated_roomHandle:
  "\<not> isSync e \<Longrightarrow>
   lastUpdatedOf (roomHandle st e) = (case stamp e of None \<Rightarrow> lastUpdatedOf st | Some now \<Rightarrow> now)"
  by (cases e)
     (simp_all add: lastUpdatedOf_def roomJoined_def participantJoined_def participantLeft_def
        hostChanged_def playbackPlay_def playbackPause_def playbackSeek_def mediaChanged_def
        chatHistory_def chatMessage_def)

lemma sorted_trace:
  "\<forall>e\<in>set evs. \<not> isSync e \<Longrightarrow>
   sorted (lastUpdatedOf st # List.map_filter stamp evs) \<Longrightarrow>
   sorted (map lastUpdatedOf (roomTrace st evs))
   \<and> (\<forall>x\<in>set (map lastUpdatedOf (roomTrace st evs)). lastUpdatedOf st \<le> x)"
proof (induction evs arbitrary: st)
  case Nil
  then show ?case by simp
next
  case (Cons e es)
  from Cons.prems(1) have ns: "\<not> isSync e" and nss: "\<forall>e\<in>set es. \<not> isSync e" by simp_all
  show ?case
  proof (cases "stamp e")
    case None
    then have eq: "lastUpdatedOf (roomHandle st e) = lastUpdatedOf st"
      using ns by (simp add: lastUpdated_roomHandle)
    from Cons.prems(2) None have "sorted (lastUpdatedOf (roomHandle st e) # List.map_filter stamp es)"
      by (simp add: eq)
    from Cons.IH [OF nss this] show ?thesis by (simp add: eq)
  next
    case (Some now)
    then have eq: "lastUpdatedOf (roomHandle st e) = now"
      using ns by (simp add: lastUpdated_roomHandle)
    from Cons.prems(2) Some have s: "sorted (lastUpdatedOf (roomHandle st e) # List.map_filter stamp es)"
      and le: "lastUpdatedOf st \<le> now"
      by (simp_all add: eq)
    from Cons.IH [OF nss s] le show ?thesis by (fastforce simp: eq)
  qed
qed

text \<open>
  C8, as stated, fails: the handler of \<^verbatim>\<open>playback:sync\<close> stores the payload as it
  comes. After a play event handled at local time 1050, a sync whose payload carries
  the timestamp 1000 lowers \<^verbatim>\<open>lastUpdated\<close>.
\<close>

theorem sync_lowers_last_updated_counterexample:
  "lastUpdatedOf (roomHandle (roomHandle room0 (PlaybackPlay 10 1050))
       (PlaybackSync \<lparr>isPlaying = True, currentTime = 10, playbackRate = 1, lastUpdated = 1000\<rparr>))
     < lastUpdatedOf (roomHandle room0 (PlaybackPlay 10 1050))"
  by (simp add: lastUpdatedOf_def playbackPlay_def playbackSync_def)

text \<open>
  C8, amended. The handlers of play, pause and seek (and of a media change) stamp the
  playback state with the local clock, and no other handler but the one of sync
  touches the timestamp. So along any sequence of events without a sync,
  \<^verbatim>\<open>lastUpdated\<close> never decreases from one state to the next, provided the local
  clock readings do not decrease and start no earlier than the initial timestamp. A
  sync event sets \<^verbatim>\<open>lastUpdated\<close> to the value in its payload, whatever the state
  before.
\<close>

theorem last_updated_monotone_without_sync:
  assumes "\<forall>e\<in>set evs. \<not> isSync e"
    and "sorted (lastUpdatedOf st # List.map_filter stamp evs)"
  shows "sorted (map lastUpdatedOf (roomTrace st evs))
       \<and> lastUpdatedOf (roomHandle st' (PlaybackSync s)) = lastUpdated s"
  using sorted_trace [OF assms] by (simp add: lastUpdatedOf_def playbackSync_def)

theorem last_updated_monotone_without_sync_witness:
  "list_all (\<lambda>e. \<not> isSync e)
     [PlaybackPlay 10 1050, ChatHistory [], PlaybackSeek 30 1050, PlaybackPause 31 2000]
   \<and> sorted (lastUpdatedOf room0 # List.map_filter stamp
       [PlaybackPlay 10 1050, ChatHistory [], PlaybackSeek 30 1050, PlaybackPause 31 2000])
   \<and> map lastUpdatedOf (roomTrace room0
       [PlaybackPlay 10 1050, ChatHistory [], PlaybackSeek 30 1050, PlaybackPause 31 2000])
       = [0, 1050, 1050, 1050, 2000]
   \<and> sorted (map lastUpdatedOf (roomTrace room0
       [PlaybackPlay 10 1050, ChatHistory [], PlaybackSeek 30 1050, PlaybackPause 31 2000]))"
proof -
  let ?evs = "[PlaybackPlay 10 1050, ChatHistory [], PlaybackSeek 30 1050, PlaybackPause 31 2000]"
  have h1: "\<forall>e\<in>set ?evs. \<not> isSync e" by simp
  have h2: "sorted (lastUpdatedOf room0 # List.map_filter stamp ?evs)"
    by (simp add: lastUpdatedOf_def room0_def)
  have t: "map lastUpdatedOf (roomTrace room0 ?evs) = [0, 1050, 1050, 1050, 2000]"
    by (simp add: lastUpdatedOf_def playbackPlay_def playbackSeek_def playbackPause_def
          chatHistory_def room0_def)
  have l: "list_all (\<lambda>e. \<not> isSync e) ?evs" by simp
  from l h2 t last_updated_monotone_without_sync [OF h1 h2] show ?thesis by blast
qed

section \<open>Sending chat messages\<close>

lemma trim_empty_iff: "trim s = [] \<longleftrightarrow> (\<forall>c\<in>set s. isWhiteSpace c)"
proof -
  have "trim s = [] \<longleftrightarrow> (\<forall>c\<in>set (dropWhile isWhiteSpace s). isWhiteSpace c)"
    by (simp add: trim_def)
  also have "\<dots> \<longleftrightarrow> dropWhile isWhiteSpace s = []"
  proof
    assume a: "\<forall>c\<in>set (dropWhile isWhiteSpace s). isWhiteSpace c"
    show "dropWhile isWhiteSpace s = []"
    proof (rule ccontr)
      assume n: "dropWhile isWhiteSpace s \<noteq> []"
      then have "\<not> isWhiteSpace (hd (dropWhile isWhiteSpace s))" by (rule hd_dropWhile)
      moreover from n have "hd (dropWhile isWhiteSpace s) \<in> set (dropWhile isWhiteSpace s)" by simp
      ultimately show False using a by blast
    qed
  next
    assume "dropWhile isWhiteSpace s = []"
    then show "\<forall>c\<in>set (dropWhile isWhiteSpace s). isWhiteSpace c"
      by (metis empty_iff list.set(1))
  qed
  also have "\<dots> \<longleftrightarrow> (\<forall>c\<in>set s. isWhiteSpace c)"
    by simp
  finally show ?thesis .
qed

lemma isWhiteSpace_samples:
  "isWhiteSpace 0x20" "isWhiteSpace 0x9" "isWhiteSpace 0xA0" "isWhiteSpace 0x2003"
  "\<not> isWhiteSpace 0x68" "\<not> isWhiteSpace 0x69"
  by (simp_all add: isWhiteSpace_def)

text \<open>
  C10. The trimmed content is empty exactly when the content consists of white space
  only (the empty string included), and then \<^verbatim>\<open>sendMessage\<close> changes nothing: no
  command is emitted and no state is written. It does something only when the trimmed
  content is not empty and the socket reference is set, and what it does then is to
  emit one \<^verbatim>\<open>chat:send\<close> command with the content as given.
\<close>

theorem send_message_blank_is_noop:
  "(trim content = [] \<longleftrightarrow> (\<forall>c\<in>set content. isWhiteSpace c))
   \<and> (trim content = [] \<longrightarrow> sendMessage content st = st)
   \<and> (sendMessage content st \<noteq> st \<longleftrightarrow> trim content \<noteq> [] \<and> socketRef st \<noteq> None)
   \<and> (sendMessage content st \<noteq> st \<longrightarrow>
        sendMessage content st = st\<lparr>socketRef := Some (sent st @ [ChatSend content])\<rparr>)"
proof -
  have neq: "st\<lparr>socketRef := Some (out @ [c])\<rparr> \<noteq> st" if "socketRef st = Some out" for out c
  proof
    assume "st\<lparr>socketRef := Some (out @ [c])\<rparr> = st"
    then have "socketRef (st\<lparr>socketRef := Some (out @ [c])\<rparr>) = socketRef st" by simp
    with that show False by simp
  qed
  show ?thesis
    using neq by (auto simp: trim_empty_iff [symmetric] sendMessage_def sent_def split: option.splits)
qed

theorem send_message_blank_is_noop_witness:
  "trim [0x20, 0x9, 0xA0, 0x2003] = []
   \<and> sendMessage [0x20, 0x9, 0xA0, 0x2003] room0 = room0
   \<and> trim [0x20, 0x68, 0x69, 0x20] = [0x68, 0x69]
   \<and> sent (sendMessage [0x20, 0x68, 0x69, 0x20] room0) = [ChatSend [0x20, 0x68, 0x69, 0x20]]"
proof -
  have t1: "trim [0x20, 0x9, 0xA0, 0x2003] = []"
    by (simp add: trim_def isWhiteSpace_samples)
  have t2: "trim [0x20, 0x68, 0x69, 0x20] = [0x68, 0x69]"
    by (simp add: trim_def isWhiteSpace_samples)
  have s: "socketRef room0 = Some []" "sent room0 = []" by (simp_all add: room0_def sent_def)
  have a: "sendMessage [0x20, 0x9, 0xA0, 0x2003] room0 = room0"
    using send_message_blank_is_noop [of "[0x20, 0x9, 0xA0, 0x2003]" room0] t1 by blast
  have "sendMessage [0x20, 0x68, 0x69, 0x20] room0 \<noteq> room0"
    using send_message_blank_is_noop [of "[0x20, 0x68, 0x69, 0x20]" room0] t2 s by simp
  then have "sendMessage [0x20, 0x68, 0x69, 0x20] room0 =
      room0\<lparr>socketRef := Some (sent room0 @ [ChatSend [0x20, 0x68, 0x69, 0x20]])\<rparr>"
    using send_message_blank_is_noop [of "[0x20, 0x68, 0x69, 0x20]" room0] by blast
  then have b: "sent (sendMessage [0x20, 0x68, 0x69, 0x20] room0) = [ChatSend [0x20, 0x68, 0x69, 0x20]]"
    by (simp add: sent_def s)
  from t1 t2 a b show ?thesis by blast
qed

section \<open>Voice mesh: peer links\<close>

lemma voiceInCall_eq:
  "voiceInCall = \<lparr>socket = Some [VoiceJoinCmd], isInCall = True, isMuted = False,
                  voiceParticipants = [], localStreamRef = True, peerConnectionsRef = [], pcs = []\<rparr>"
  by (simp add: voiceInCall_def voiceIdle_def joinCall_def emit_def)

lemma voiceLinked_eq:
  "voiceLinked = \<lparr>socket = Some [VoiceJoinCmd], isInCall = True, isMuted = False,
                  voiceParticipants = [vBob], localStreamRef = True,
                  peerConnectionsRef = [(''b'', 0)],
                  pcs = [\<lparr>pc_peerId = ''b'', pc_isInitiator = False, pc_closed = False,
                          pc_remoteDescription = None, pc_iceCandidates = []\<rparr>]\<rparr>"
  by (simp add: voiceLinked_def voiceInCall_eq onVoiceParticipantJoined_def
        createPeerConnection_def vBob_def Let_def)

text \<open>
  C5. The handlers of \<^verbatim>\<open>voice:participants\<close> and \<^verbatim>\<open>voice:participant-joined\<close>
  call \<^verbatim>\<open>createPeerConnection\<close> without looking into the table of connections;
  only the handler of \<^verbatim>\<open>voice:offer\<close> creates a connection when none is there.
  On Alice's client in the call, Bob in the roster and then in a participant-joined
  event gives two connections to Bob that were constructed and never closed; the table
  holds the second one only. A participant-joined event followed by Bob's offer gives
  one.
\<close>

theorem roster_then_joined_opens_two_links:
  "length (openLinks ''b'' (voiceRun ''a'' voiceInCall
      [VoiceParticipants [vBob], VoiceParticipantJoined vBob])) = 2
   \<and> peerConnectionsRef (voiceRun ''a'' voiceInCall
      [VoiceParticipants [vBob], VoiceParticipantJoined vBob]) = [(''b'', 1)]
   \<and> length (openLinks ''b'' (voiceRun ''a'' voiceInCall
      [VoiceParticipantJoined vBob, VoiceOffer ''b'' ''offer-sdp''])) = 1"
  by (simp add: voiceRun_def voiceInCall_eq vBob_def onVoiceParticipants_def
        onVoiceParticipantJoined_def onVoiceOffer_def createPeerConnection_def emit_def
        updatePc_def openLinks_def Let_def)

section \<open>Voice mesh: ICE candidates\<close>

text \<open>
  C6, as stated, fails: the handler of \<^verbatim>\<open>voice:ice-candidate\<close> keeps no buffer. A
  candidate from Bob that arrives before any connection to Bob exists is gone: after
  Bob's offer has been applied, the connection has its remote description and no
  candidate.
\<close>

theorem early_ice_candidate_counterexample:
  "pcs (voiceRun ''a'' voiceInCall
      [VoiceIceCandidate ''b'' (Some ''candidate:1''), VoiceOffer ''b'' ''offer-sdp'']) =
     [\<lparr>pc_peerId = ''b'', pc_isInitiator = False, pc_closed = False,
       pc_remoteDescription = Some ''offer-sdp'', pc_iceCandidates = []\<rparr>]"
  by (simp add: voiceRun_def voiceInCall_eq onVoiceIceCandidate_def onVoiceOffer_def
        createPeerConnection_def emit_def updatePc_def Let_def)

text \<open>
  C6, amended. A candidate that arrives while the table holds no connection for its
  sender is discarded: every later run is the same as if it had not arrived. A
  candidate that arrives while the table holds a connection for its sender is passed
  to that connection's \<^verbatim>\<open>addIceCandidate\<close> at once, whether or not the connection
  has a remote description; nothing else changes.
\<close>

theorem ice_candidate_needs_existing_link:
  "(map_of (peerConnectionsRef st) fromId = None \<longrightarrow>
      voiceRun me st (VoiceIceCandidate fromId candidate # evs) = voiceRun me st evs)
   \<and> (socket st \<noteq> None \<and> map_of (peerConnectionsRef st) fromId = Some h \<and> h < length (pcs st) \<longrightarrow>
      voiceHandle me st (VoiceIceCandidate fromId (Some c)) =
        st\<lparr>pcs := (pcs st)[h := (pcs st ! h)\<lparr>pc_iceCandidates := pc_iceCandidates (pcs st ! h) @ [c]\<rparr>]\<rparr>)"
  by (simp add: voiceRun_def onVoiceIceCandidate_def updatePc_def)

theorem ice_candidate_needs_existing_link_witness:
  "map_of (peerConnectionsRef voiceInCall) ''b'' = None
   \<and> voiceRun ''a'' voiceInCall [VoiceIceCandidate ''b'' (Some ''candidate:1''), VoiceOffer ''b'' ''offer-sdp'']
       = voiceRun ''a'' voiceInCall [VoiceOffer ''b'' ''offer-sdp'']
   \<and> map_of (peerConnectionsRef voiceLinked) ''b'' = Some 0
   \<and> pc_remoteDescription (pcs voiceLinked ! 0) = None
   \<and> map pc_iceCandidates (pcs (voiceHandle ''a'' voiceLinked (VoiceIceCandidate ''b'' (Some ''candidate:1''))))
       = [[''candidate:1'']]"
proof -
  have n: "map_of (peerConnectionsRef voiceInCall) ''b'' = None"
    by (simp add: voiceInCall_eq)
  have l: "socket voiceLinked \<noteq> None \<and> map_of (peerConnectionsRef voiceLinked) ''b'' = Some 0
           \<and> 0 < length (pcs voiceLinked)"
    by (simp add: voiceLinked_eq)
  have r: "pc_remoteDescription (pcs voiceLinked ! 0) = None"
    by (simp add: voiceLinked_eq)
  have a: "voiceRun ''a'' voiceInCall [VoiceIceCandidate ''b'' (Some ''candidate:1''), VoiceOffer ''b'' ''offer-sdp'']
       = voiceRun ''a'' voiceInCall [VoiceOffer ''b'' ''offer-sdp'']"
    using ice_candidate_needs_existing_link
      [of voiceInCall "''b''" "''a''" "Some ''candidate:1''" "[VoiceOffer ''b'' ''offer-sdp'']"] n
    by blast
  have "voiceHandle ''a'' voiceLinked (VoiceIceCandidate ''b'' (Some ''candidate:1'')) =
      voiceLinked\<lparr>pcs := (pcs voiceLinked)[0 := (pcs voiceLinked ! 0)
        \<lparr>pc_iceCandidates := pc_iceCandidates (pcs voiceLinked ! 0) @ [''candidate:1'']\<rparr>]\<rparr>"
    using ice_candidate_needs_existing_link [of voiceLinked "''b''" "''a''" _ _ 0 "''candidate:1''"] l
    by blast
  then have b: "map pc_iceCandidates
      (pcs (voiceHandle ''a'' voiceLinked (VoiceIceCandidate ''b'' (Some ''candidate:1'')))) = [[''candidate:1'']]"
    by (simp add: voiceLinked_eq)
  from n a l r b show ?thesis by blast
qed

section \<open>Voice mesh: the participant list\<close>

lemma vp_emit: "voiceParticipants (emit c st) = voiceParticipants st"
  by (simp add: emit_def split: option.splits)

lemma vp_updatePc: "voiceParticipants (updatePc h f st) = voiceParticipants st"
  by (simp add: updatePc_def)

lemma vp_cleanup: "voiceParticipants (cleanupPeerConnection p st) = voiceParticipants st"
  by (simp add: cleanupPeerConnection_def vp_updatePc split: option.splits)

lemma vp_create: "voiceParticipants (fst (createPeerConnection p i st)) = voiceParticipants st"
  by (simp add: createPeerConnection_def Let_def vp_emit)

lemma vp_create_loop:
  "voiceParticipants
     (foldl (\<lambda>s p. if v_id p \<noteq> me \<and> b then fst (createPeerConnection (v_id p) True s) else s) st roster)
   = voiceParticipants st"
  by (induction roster arbitrary: st) (simp_all add: vp_create)

lemma rosterIds_participants:
  "rosterIds (onVoiceParticipants me roster st) = filter (\<lambda>i. i \<noteq> me) (map v_id roster)"
  by (simp add: rosterIds_def onVoiceParticipants_def vp_create_loop filter_map comp_def)

lemma rosterIds_joined:
  "rosterIds (onVoiceParticipantJoined me p st) = filter (\<lambda>i. i \<noteq> v_id p) (rosterIds st) @ [v_id p]"
  by (simp add: rosterIds_def onVoiceParticipantJoined_def Let_def vp_create filter_map comp_def)

lemma rosterIds_left:
  "rosterIds (onVoiceParticipantLeft i st) = filter (\<lambda>j. j \<noteq> i) (rosterIds st)"
  by (simp add: rosterIds_def onVoiceParticipantLeft_def vp_cleanup filter_map comp_def)

lemma rosterIds_muted: "rosterIds (onVoiceParticipantMuted i m st) = rosterIds st"
  by (simp add: rosterIds_def onVoiceParticipantMuted_def comp_def if_distrib cong: if_cong)

lemma rosterIds_offer: "rosterIds (onVoiceOffer i sdp st) = rosterIds st"
proof (cases "map_of (peerConnectionsRef st) i")
  case None
  then show ?thesis
    using vp_create [of i False st]
    by (cases "createPeerConnection i False st")
       (simp add: rosterIds_def onVoiceOffer_def vp_emit vp_updatePc split: option.splits)
next
  case (Some h)
  then show ?thesis
    by (simp add: rosterIds_def onVoiceOffer_def vp_emit vp_updatePc)
qed

lemma rosterIds_answer: "rosterIds (onVoiceAnswer i sdp st) = rosterIds st"
  by (simp add: rosterIds_def onVoiceAnswer_def vp_updatePc split: option.splits)

lemma rosterIds_ice: "rosterIds (onVoiceIceCandidate i c st) = rosterIds st"
  by (simp add: rosterIds_def onVoiceIceCandidate_def vp_updatePc split: option.splits)

lemma roster_invariant_step:
  assumes "cleanVoiceEvent me ev" and "distinct (rosterIds st)" and "me \<notin> set (rosterIds st)"
  shows "distinct (rosterIds (voiceHandle me st ev)) \<and> me \<notin> set (rosterIds (voiceHandle me st ev))"
proof (cases "socket st = None")
  case True
  with assms show ?thesis by simp
next
  case False
  show ?thesis
  proof (cases ev)
    case (VoiceParticipants roster)
    with assms False show ?thesis by (simp add: rosterIds_participants)
  next
    case (VoiceParticipantJoined p)
    with assms False show ?thesis by (simp add: rosterIds_joined)
  next
    case (VoiceParticipantLeft i)
    with assms False show ?thesis by (simp add: rosterIds_left)
  next
    case (VoiceParticipantMuted i m)
    with assms False show ?thesis by (simp add: rosterIds_muted)
  next
    case (VoiceOffer i sdp)
    with assms False show ?thesis by (simp add: rosterIds_offer)
  next
    case (VoiceAnswer i sdp)
    with assms False show ?thesis by (simp add: rosterIds_answer)
  next
    case (VoiceIceCandidate i c)
    with assms False show ?thesis by (simp add: rosterIds_ice)
  qed
qed

text \<open>
  C9, as stated, fails. The handler of \<^verbatim>\<open>voice:participant-joined\<close> removes the
  entry with the joiner's id and appends the joiner, also when the joiner is the local
  participant; and the handler of \<^verbatim>\<open>voice:participants\<close> stores the roster without
  the local participant but otherwise as it comes, duplicates included.
\<close>

theorem voice_roster_counterexample:
  "''a'' \<in> set (rosterIds (voiceRun ''a'' voiceInCall [VoiceParticipantJoined vAlice]))
   \<and> \<not> distinct (rosterIds (voiceRun ''a'' voiceInCall [VoiceParticipants [vBob, vBob]]))"
  by (simp add: rosterIds_def voiceRun_def voiceInCall_eq vAlice_def vBob_def
        onVoiceParticipants_def onVoiceParticipantJoined_def createPeerConnection_def emit_def Let_def)

text \<open>
  C9, amended. Starting from a list with pairwise distinct ids that does not hold the
  local id (the empty list of a fresh component, for one), after any sequence of voice
  events in which every roster has pairwise distinct ids and no participant-joined
  event names the local participant, the list has pairwise distinct ids and does not
  hold the local id.
\<close>

theorem voice_roster_distinct_without_self:
  assumes "\<forall>ev\<in>set evs. cleanVoiceEvent me ev"
    and "distinct (rosterIds st)" and "me \<notin> set (rosterIds st)"
  shows "distinct (rosterIds (voiceRun me st evs)) \<and> me \<notin> set (rosterIds (voiceRun me st evs))"
  using assms
proof (induction evs arbitrary: st)
  case Nil
  then show ?case by (simp add: voiceRun_def)
next
  case (Cons ev evs)
  from Cons.prems have "cleanVoiceEvent me ev" by simp
  from roster_invariant_step [OF this Cons.prems(2,3)]
  have "distinct (rosterIds (voiceHandle me st ev))" "me \<notin> set (rosterIds (voiceHandle me st ev))"
    by simp_all
  with Cons.IH [of "voiceHandle me st ev"] Cons.prems(1)
  have "distinct (rosterIds (voiceRun me (voiceHandle me st ev) evs))
      \<and> me \<notin> set (rosterIds (voiceRun me (voiceHandle me st ev) evs))" by simp
  then show ?case by (simp add: voiceRun_def)
qed

theorem voice_roster_distinct_without_self_witness:
  "list_all (cleanVoiceEvent ''a'')
     [VoiceParticipants [vAlice, vBob], VoiceParticipantJoined vBob, VoiceParticipantMuted ''b'' True]
   \<and> distinct (rosterIds voiceInCall) \<and> ''a'' \<notin> set (rosterIds voiceInCall)
   \<and> rosterIds (voiceRun ''a'' voiceInCall
       [VoiceParticipants [vAlice, vBob], VoiceParticipantJoined vBob, VoiceParticipantMuted ''b'' True])
       = [''b'']
   \<and> distinct (rosterIds (voiceRun ''a'' voiceInCall
       [VoiceParticipants [vAlice, vBob], VoiceParticipantJoined vBob, VoiceParticipantMuted ''b'' True]))"
proof -
  let ?evs = "[VoiceParticipants [vAlice, vBob], VoiceParticipantJoined vBob, VoiceParticipantMuted ''b'' True]"
  have h1: "\<forall>ev\<in>set ?evs. cleanVoiceEvent ''a'' ev" by (simp add: vAlice_def vBob_def)
  have l: "list_all (cleanVoiceEvent ''a'') ?evs" by (simp add: vAlice_def vBob_def)
  have h2: "distinct (rosterIds voiceInCall)" and h3: "''a'' \<notin> set (rosterIds voiceInCall)"
    by (simp_all add: rosterIds_def voiceInCall_eq)
  have r: "rosterIds (voiceRun ''a'' voiceInCall ?evs) = [''b'']"
    by (simp add: voiceRun_def voiceInCall_eq rosterIds_participants rosterIds_joined rosterIds_muted
          vAlice_def vBob_def)
  from l h2 h3 r voice_roster_distinct_without_self [OF h1 h2 h3] show ?thesis by blast
qed

end
